theory Spec2Isabelle
  imports Main "HOL-Library.AList"
begin

text \<open>
  The ngsflow stage functions (\<open>annotation.py\<close>, \<open>gatk.py\<close>, \<open>variation/platypus.py\<close>)
  as functions on an explicit program state. Each stage derives file names from the
  sample, builds the argument tuple of one external tool from the configuration, logs
  it, hands the joined command line to \<open>pipeline.run_and_log_command\<close> and returns a
  file name. A failed configuration lookup is an exception of the source and a value
  \<open>Inl\<close> here; the calls into the job engine, the process runner and the file system
  are recorded as effects in a trace.
\<close>

section \<open>Python values, formatting and lookups\<close>

text \<open>
  The pipeline functions receive a configuration dictionary whose entries are strings,
  integers or nested dictionaries. A dictionary is kept as an association list in the
  dictionary's iteration order (the order matters only when a whole dictionary is
  formatted). Strings are byte strings (\<open>str\<close>), integers are plain \<open>int\<close>s.
\<close>

datatype pyval = PStr string | PInt int | PDict "(string \<times> pyval) list"

type_synonym dict = "(string \<times> pyval) list"

datatype error = KeyError string | TypeError

type_synonym 'a res = "error + 'a"

subsection \<open>\<open>str()\<close> and \<open>repr()\<close>\<close>

definition digit_char :: "nat \<Rightarrow> char" where
  "digit_char d = ''0123456789'' ! d"

fun show_nat :: "nat \<Rightarrow> string" where
  "show_nat n = (if n < 10 then [digit_char n] else show_nat (n div 10) @ [digit_char (n mod 10)])"

declare show_nat.simps [simp del]

definition show_int :: "int \<Rightarrow> string" where
  "show_int i = (if i < 0 then CHR ''-'' # show_nat (nat (- i)) else show_nat (nat i))"

definition hex_char :: "nat \<Rightarrow> char" where
  "hex_char d = ''0123456789abcdef'' ! d"

definition squote :: char where
  "squote = CHR 0x27"

definition dquote :: char where
  "dquote = CHR 0x22"

definition backslash :: char where
  "backslash = CHR 0x5C"

definition newline :: char where
  "newline = CHR 0x0A"

text \<open>The quote character \<open>repr\<close> chooses for a byte string.\<close>

definition repr_quote :: "string \<Rightarrow> char" where
  "repr_quote s = (if squote \<in> set s \<and> dquote \<notin> set s then dquote else squote)"

definition repr_char :: "char \<Rightarrow> char \<Rightarrow> string" where
  "repr_char q c =
     (if c = q \<or> c = backslash then [backslash, c]
      else if c = CHR 0x09 then [backslash, CHR ''t'']
      else if c = CHR 0x0A then [backslash, CHR ''n'']
      else if c = CHR 0x0D then [backslash, CHR ''r'']
      else if (of_char c :: nat) < 32 \<or> 127 \<le> (of_char c :: nat)
        then [backslash, CHR ''x'', hex_char (of_char c div 16), hex_char (of_char c mod 16)]
      else [c])"

definition repr_str :: "string \<Rightarrow> string" where
  "repr_str s = (let q = repr_quote s in q # concat (map (repr_char q) s) @ [q])"

text \<open>\<open>sep.join(xs)\<close>\<close>

fun join :: "string \<Rightarrow> string list \<Rightarrow> string" where
  "join sep [] = []"
| "join sep [x] = x"
| "join sep (x # y # ys) = x @ sep @ join sep (y # ys)"

text \<open>\<open>repr\<close> of a value, as it appears inside a formatted dictionary.\<close>

fun repr :: "pyval \<Rightarrow> string"
  and repr_items :: "(string \<times> pyval) list \<Rightarrow> string list" where
  "repr (PStr s) = repr_str s"
| "repr (PInt i) = show_int i"
| "repr (PDict kvs) = ''{'' @ join '', '' (repr_items kvs) @ ''}''"
| "repr_items [] = []"
| "repr_items ((k, v) # kvs) = (repr_str k @ '': '' @ repr v) # repr_items kvs"

text \<open>
  \<open>"{}".format(v)\<close> and \<open>"%s" % v\<close>: the value's \<open>str()\<close>. A string is inserted as it
  is, an integer in decimal, a dictionary by its \<open>repr\<close>.
\<close>

fun format :: "pyval \<Rightarrow> string" where
  "format (PStr s) = s"
| "format (PInt i) = show_int i"
| "format (PDict kvs) = repr (PDict kvs)"

text \<open>\<open>repr\<close> of a tuple of strings, as \<open>"{}".format(command)\<close> prints a command tuple.\<close>

definition repr_tuple :: "string list \<Rightarrow> string" where
  "repr_tuple xs =
     ''('' @ join '', '' (map repr_str xs) @ (if length xs = 1 then '','' else []) @ '')''"

subsection \<open>Subscription\<close>

text \<open>
  \<open>v[k]\<close> with a string key: a dictionary raises \<open>KeyError\<close> when the key is absent;
  a string or an integer cannot be indexed by a string and raises \<open>TypeError\<close>.
\<close>

fun getitem :: "pyval \<Rightarrow> string \<Rightarrow> pyval res" where
  "getitem (PDict kvs) k = (case map_of kvs k of None \<Rightarrow> Inl (KeyError k) | Some v \<Rightarrow> Inr v)"
| "getitem (PStr s) k = Inl TypeError"
| "getitem (PInt i) k = Inl TypeError"

text \<open>A chain of subscriptions \<open>config[k1][k2]...\<close>, evaluated left to right.\<close>

fun lookup_path :: "pyval \<Rightarrow> string list \<Rightarrow> pyval res" where
  "lookup_path v [] = Inr v"
| "lookup_path v (k # ks) = (case getitem v k of Inl e \<Rightarrow> Inl e | Inr w \<Rightarrow> lookup_path w ks)"

declare lookup_path.simps [simp del]

definition cfg1 :: "dict \<Rightarrow> string \<Rightarrow> pyval res" where
  "cfg1 config k = lookup_path (PDict config) [k]"

definition cfg2 :: "dict \<Rightarrow> string \<Rightarrow> string \<Rightarrow> pyval res" where
  "cfg2 config k1 k2 = lookup_path (PDict config) [k1, k2]"

subsection \<open>Building a command tuple\<close>

text \<open>
  The elements of a tuple display are evaluated left to right; the first one that raises
  ends the construction with its exception.
\<close>

fun seq_res :: "'a res list \<Rightarrow> 'a list res" where
  "seq_res [] = Inr []"
| "seq_res (Inl e # rs) = Inl e"
| "seq_res (Inr x # rs) = (case seq_res rs of Inl e \<Rightarrow> Inl e | Inr xs \<Rightarrow> Inr (x # xs))"

text \<open>\<open>"pre{}post".format(value)\<close>, where evaluating the value may raise.\<close>

definition tok :: "string \<Rightarrow> pyval res \<Rightarrow> string \<Rightarrow> string res" where
  "tok pre r post = (case r of Inl e \<Rightarrow> Inl e | Inr v \<Rightarrow> Inr (pre @ format v @ post))"

definition lit :: "string \<Rightarrow> string res" where
  "lit s = Inr s"

section \<open>Program state and the effects of a stage\<close>

text \<open>
  What a stage does to the outside world is recorded in a trace: \<open>LogToMaster\<close> is
  \<open>job.fileStore.logToMaster(message)\<close>, \<open>RunAndLog\<close> is
  \<open>pipeline.run_and_log_command(command, logfile)\<close>, the process-execution boundary,
  \<open>Touch\<close> is \<open>utilities.touch(path)\<close>, \<open>StdoutWrite\<close> is \<open>sys.stdout.write(text)\<close>
  and \<open>Sleep\<close> is \<open>time.sleep(seconds)\<close>. These collaborators are called for their
  effect only; no stage looks at what they return.
\<close>

datatype effect =
    LogToMaster string
  | RunAndLog string string
  | Touch string
  | StdoutWrite string
  | Sleep int

text \<open>
  The state a call runs in: the configuration dictionary (\<open>config\<close>, called
  \<open>tool_config\<close> by \<open>run_mark_duplicates\<close>), the list of sample records
  (\<open>sample_config\<close>), the number of processors \<open>multiprocessing.cpu_count()\<close> reports
  on the host, and the trace of effects performed so far. Dictionaries are mutable
  objects in Python, so every stage returns the state it leaves behind.
\<close>

record pstate =
  config :: dict
  sample_config :: "dict list"
  cpu_count :: int
  effects :: "effect list"

definition emit :: "effect \<Rightarrow> pstate \<Rightarrow> pstate" where
  "emit e w = w\<lparr>effects := effects w @ [e]\<rparr>"

definition logToMaster :: "string \<Rightarrow> pstate \<Rightarrow> pstate" where
  "logToMaster message w = emit (LogToMaster message) w"

definition run_and_log_command :: "string \<Rightarrow> string \<Rightarrow> pstate \<Rightarrow> pstate" where
  "run_and_log_command command logfile w = emit (RunAndLog command logfile) w"

definition touch :: "string \<Rightarrow> pstate \<Rightarrow> pstate" where
  "touch path w = emit (Touch path) w"

text \<open>
  The \<open>job\<close> argument of a stage is used for \<open>job.fileStore.logToMaster\<close> only and is
  not an argument of the functions below; the sample and the input paths are strings,
  as the docstrings say, so \<open>"{}".format\<close> of them is the string itself.
  \<open>multiprocessing.cpu_count()\<close> is taken to return (it reads \<open>cpu_count\<close> of the state).

  Statements executed one after the other:
\<close>

definition do_all :: "(pstate \<Rightarrow> pstate) list \<Rightarrow> pstate \<Rightarrow> pstate" where
  "do_all fs w = fold (\<lambda>f s. f s) fs w"

section \<open>annotation.py\<close>

definition snpeff_command :: "dict \<Rightarrow> string \<Rightarrow> string \<Rightarrow> string list res" where
  "snpeff_command cfg input_vcf output_vcf = seq_res
     [tok [] (cfg2 cfg ''snpeff'' ''bin'') [],
      tok ''-Xmx'' (cfg2 cfg ''snpeff'' ''max_mem'') ''g'',
      lit ''-v'',
      tok [] (cfg2 cfg ''snpeff'' ''reference'') [],
      lit input_vcf,
      lit (''>'' @ output_vcf)]"

text \<open>
  The last element of the tuple is written \<open>">" "{}".format(output_vcf)\<close>: there is no
  comma between the two literals, so they are one format string \<open>">{}"\<close>.
\<close>

definition snpeff :: "pstate \<Rightarrow> string \<Rightarrow> string \<Rightarrow> pstate \<times> string res" where
  "snpeff w sample input_vcf =
     (case cfg2 (config w) ''snpeff'' ''reference'' of
        Inl e \<Rightarrow> (w, Inl e)
      | Inr reference \<Rightarrow>
          (let output_vcf = sample @ ''.snpEff.'' @ format reference @ ''.vcf'';
               logfile = sample @ ''.snpeff.log''
           in case snpeff_command (config w) input_vcf output_vcf of
                Inl e \<Rightarrow> (w, Inl e)
              | Inr command \<Rightarrow>
                  (do_all
                     [logToMaster (''snpEff Command: '' @ repr_tuple command @ [newline]),
                      run_and_log_command (join '' '' command) logfile] w,
                   Inr output_vcf)))"

definition gemini_command :: "dict \<Rightarrow> string \<Rightarrow> string \<Rightarrow> string list res" where
  "gemini_command cfg input_vcf db = seq_res
     [tok [] (cfg2 cfg ''gemini'' ''bin'') [],
      lit ''load'',
      lit ''--cores'',
      tok [] (cfg2 cfg ''gemini'' ''num_cores'') [],
      lit ''--save-info-string'',
      lit ''-v'',
      lit input_vcf,
      lit ''-t'',
      lit ''snpEff'',
      lit db]"

definition gemini :: "pstate \<Rightarrow> string \<Rightarrow> string \<Rightarrow> pstate \<times> string res" where
  "gemini w sample input_vcf =
     (case cfg2 (config w) ''snpeff'' ''reference'' of
        Inl e \<Rightarrow> (w, Inl e)
      | Inr reference \<Rightarrow>
          (let db = sample @ ''.snpEff.'' @ format reference @ ''.db'';
               logfile = sample @ ''.gemini.log''
           in case gemini_command (config w) input_vcf db of
                Inl e \<Rightarrow> (w, Inl e)
              | Inr command \<Rightarrow>
                  (do_all
                     [logToMaster (''GEMINI Command: '' @ repr_tuple command @ [newline]),
                      run_and_log_command (join '' '' command) logfile] w,
                   Inr db)))"

definition vcfanno_command :: "dict \<Rightarrow> string \<Rightarrow> string \<Rightarrow> string list res" where
  "vcfanno_command cfg input_vcf output_vcf = seq_res
     [tok [] (cfg2 cfg ''vcfanno'' ''bin'') [],
      lit ''-p'',
      tok [] (cfg2 cfg ''vcfanno'' ''num_cores'') [],
      lit ''--lua'',
      tok [] (cfg2 cfg ''vcfanno'' ''lua'') [],
      tok [] (cfg2 cfg ''vcfanno'' ''conf'') [],
      lit input_vcf,
      lit ''>'',
      lit output_vcf]"

definition vcfanno :: "pstate \<Rightarrow> string \<Rightarrow> string \<Rightarrow> pstate \<times> string res" where
  "vcfanno w sample input_vcf =
     (case cfg2 (config w) ''snpeff'' ''reference'' of
        Inl e \<Rightarrow> (w, Inl e)
      | Inr reference \<Rightarrow>
          (let output_vcf = sample @ ''.vcfanno.snpEff.'' @ format reference @ ''.vcf'';
               logfile = sample @ ''.vcfanno.log''
           in case vcfanno_command (config w) input_vcf output_vcf of
                Inl e \<Rightarrow> (w, Inl e)
              | Inr command \<Rightarrow>
                  (do_all
                     [logToMaster (''GEMINI Command: '' @ repr_tuple command @ [newline]),
                      run_and_log_command (join '' '' command) logfile] w,
                   Inr output_vcf)))"

section \<open>gatk.py\<close>

definition diagnosetargets_command ::
  "dict \<Rightarrow> string \<Rightarrow> string \<Rightarrow> string \<Rightarrow> string list res" where
  "diagnosetargets_command cfg input_bam diagnose_targets_vcf missing_intervals = seq_res
     [lit ''java'',
      tok ''-Xmx'' (Inr (PInt 2)) ''g'',
      lit ''-jar'',
      tok [] (cfg2 cfg ''gatk'' ''bin'') [],
      lit ''-T'',
      lit ''DiagnoseTargets'',
      lit ''-R'',
      tok [] (cfg1 cfg ''reference'') [],
      lit ''-L'',
      tok [] (cfg1 cfg ''regions'') [],
      lit ''--coverage_status_threshold'',
      tok [] (cfg1 cfg ''coverage_loci_threshold'') [],
      lit ''--bad_mate_status_threshold'',
      tok [] (cfg1 cfg ''bad_mate_threshold'') [],
      lit ''--minimum_coverage'',
      tok [] (cfg1 cfg ''coverage_threshold'') [],
      lit ''--quality_status_threshold'',
      tok [] (cfg1 cfg ''quality_loci_threshold'') [],
      lit ''-I'',
      lit input_bam,
      lit ''-o'',
      lit diagnose_targets_vcf,
      lit ''--missing_intervals'',
      lit missing_intervals]"

definition diagnosetargets :: "pstate \<Rightarrow> string \<Rightarrow> string \<Rightarrow> pstate \<times> string res" where
  "diagnosetargets w sample input_bam =
     (let diagnose_targets_vcf = sample @ ''.diagnosetargets.vcf'';
          missing_intervals = sample @ ''.missing.intervals'';
          logfile = sample @ ''.diagnose_targets.log''
      in case diagnosetargets_command (config w) input_bam diagnose_targets_vcf missing_intervals of
           Inl e \<Rightarrow> (w, Inl e)
         | Inr command \<Rightarrow>
             (do_all
                [logToMaster (''GATK DiagnoseTargets Command: '' @ repr_tuple command @ [newline]),
                 run_and_log_command (join '' '' command) logfile] w,
              Inr diagnose_targets_vcf))"

definition annotation_command ::
  "dict \<Rightarrow> string \<Rightarrow> string \<Rightarrow> int \<Rightarrow> string \<Rightarrow> string list res" where
  "annotation_command cfg input_vcf input_bam num_threads output_vcf = seq_res
     [lit ''java'',
      tok ''-Xmx'' (cfg2 cfg ''gatk'' ''max_mem'') ''g'',
      lit ''-jar'',
      tok [] (cfg2 cfg ''gatk'' ''bin'') [],
      lit ''-T'',
      lit ''VariantAnnotator'',
      lit ''-R'',
      tok [] (cfg1 cfg ''reference'') [],
      lit ''-nt'',
      tok [] (Inr (PInt num_threads)) [],
      lit ''--group'',
      lit ''StandardAnnotation'',
      lit ''--dbsnp'',
      tok [] (cfg1 cfg ''dbsnp'') [],
      lit ''-I'',
      lit input_bam,
      lit ''--variant'',
      lit input_vcf,
      lit ''-L'',
      lit input_vcf,
      lit ''-o'',
      lit output_vcf]"

definition annotate_vcf ::
  "pstate \<Rightarrow> string \<Rightarrow> string \<Rightarrow> string \<Rightarrow> int \<Rightarrow> pstate \<times> string res" where
  "annotate_vcf w sample input_vcf input_bam num_threads =
     (let output_vcf = sample @ ''.annotated.vcf'';
          annotation_logfile = sample @ ''.variantannotation.log''
      in case annotation_command (config w) input_vcf input_bam num_threads output_vcf of
           Inl e \<Rightarrow> (w, Inl e)
         | Inr command \<Rightarrow>
             (do_all
                [logToMaster
                   (''GATK VariantAnnotator Command: '' @ repr_tuple command @ [newline]),
                 run_and_log_command (join '' '' command) annotation_logfile] w,
              Inr output_vcf))"

text \<open>A literal written between single quotes in the source, such as \<open>"'HighMQ0'"\<close>.\<close>

definition quoted :: "string \<Rightarrow> string" where
  "quoted s = squote # s @ [squote]"

definition filter_command :: "dict \<Rightarrow> string \<Rightarrow> string \<Rightarrow> string list res" where
  "filter_command cfg input_vcf output_vcf = seq_res
     [lit ''java'',
      tok ''-Xmx'' (cfg2 cfg ''gatk'' ''max_mem'') ''g'',
      lit ''-jar'',
      tok [] (cfg2 cfg ''gatk'' ''bin'') [],
      lit ''-T'',
      lit ''VariantFiltration'',
      lit ''-R'',
      tok [] (cfg1 cfg ''reference'') [],
      lit ''--filterExpression'',
      lit (quoted ''MQ0 > 50''),
      lit ''--filterName'',
      lit (quoted ''HighMQ0''),
      lit ''--filterExpression'',
      tok (squote # ''DP < '') (cfg1 cfg ''coverage_threshold'') [squote],
      lit ''--filterName'',
      lit (quoted ''LowDepth''),
      lit ''--filterExpression'',
      lit (quoted ''QUAL < 10''),
      lit ''--filterName'',
      lit (quoted ''LowQual''),
      lit ''--filterExpression'',
      lit (quoted ''MQ < 10''),
      lit ''--filterName'',
      lit (quoted ''LowMappingQual''),
      lit ''--variant'',
      lit input_vcf,
      lit ''-o'',
      lit output_vcf]"

definition filter_variants :: "pstate \<Rightarrow> string \<Rightarrow> string \<Rightarrow> pstate \<times> string res" where
  "filter_variants w sample input_vcf =
     (let output_vcf = sample @ ''.filtered.vcf'';
          filter_log = sample @ ''.variantfiltration.log''
      in case filter_command (config w) input_vcf output_vcf of
           Inl e \<Rightarrow> (w, Inl e)
         | Inr command \<Rightarrow>
             (do_all
                [logToMaster
                   (''GATK VariantFiltration Command: '' @ repr_tuple command @ [newline]),
                 run_and_log_command (join '' '' command) filter_log] w,
              Inr output_vcf))"

subsection \<open>\<open>run_mark_duplicates\<close>\<close>

text \<open>
  \<open>run_mark_duplicates(project_config, sample_config, tool_config, resource_config)\<close>
  walks over the sample records and rewrites them in place; \<open>project_config\<close> and
  \<open>resource_config\<close> are never used. \<open>sample[k] = v\<close> on a record:
\<close>

definition setitem :: "string \<Rightarrow> pyval \<Rightarrow> dict \<Rightarrow> dict" where
  "setitem k v d = AList.update k v d"

definition bind_res :: "'a res \<Rightarrow> ('a \<Rightarrow> 'b res) \<Rightarrow> 'b res" where
  "bind_res r f = (case r of Inl e \<Rightarrow> Inl e | Inr x \<Rightarrow> f x)"

text \<open>
  The command string of one sample, \<open>"java -Xmx%sg -jar %s MarkDuplicates ..." % (...)\<close>:
  the five values of the tuple are evaluated left to right.
\<close>

definition mark_duplicates_command :: "dict \<Rightarrow> dict \<Rightarrow> string \<Rightarrow> string res" where
  "mark_duplicates_command tool_config sample metrics =
     bind_res (cfg2 tool_config ''gatk'' ''max_mem'') (\<lambda>max_mem.
     bind_res (cfg2 tool_config ''picard'' ''bin'') (\<lambda>bin.
     bind_res (getitem (PDict sample) ''working_bam'') (\<lambda>working_bam.
     bind_res (getitem (PDict sample) ''dedup_bam'') (\<lambda>dedup_bam.
       Inr (''java -Xmx'' @ format max_mem @ ''g -jar '' @ format bin
            @ '' MarkDuplicates CREATE_INDEX=true INPUT='' @ format working_bam
            @ '' OUTPUT='' @ format dedup_bam @ '' METRICS_FILE='' @ metrics
            @ '' VALIDATION_STRINGENCY=LENIENT'')))))"

text \<open>
  The body of the loop for one sample record: the record as the body leaves it, and the
  instruction \<open>(command, logfile)\<close> or the exception that ended the body. The \<open>try\<close>
  block swallows the \<open>KeyError\<close> of a record without \<open>'bam'\<close>. The name is read before
  any assignment, and no assignment touches the key \<open>'name'\<close>, so it is read once here.
\<close>

definition mark_duplicates_body :: "dict \<Rightarrow> dict \<Rightarrow> dict \<times> (string \<times> string) res" where
  "mark_duplicates_body tool_config sample =
     (case getitem (PDict sample) ''name'' of
        Inl e \<Rightarrow> (sample, Inl e)
      | Inr name \<Rightarrow>
          (let logfile = format name @ ''.markduplicates.log'';
               sample1 = (case getitem (PDict sample) ''bam'' of
                            Inl e \<Rightarrow> sample
                          | Inr bam \<Rightarrow> setitem ''sorted_bam'' bam sample);
               sample2 = setitem ''dedup_bam'' (PStr (format name @ ''.dedup.sorted.bam'')) sample1;
               metrics = format name @ ''.dedup.metrics''
           in case mark_duplicates_command tool_config sample2 metrics of
                Inl e \<Rightarrow> (sample2, Inl e)
              | Inr command \<Rightarrow>
                  (case getitem (PDict sample2) ''dedup_bam'' of
                     Inl e \<Rightarrow> (sample2, Inl e)
                   | Inr dedup_bam \<Rightarrow>
                       (setitem ''working_bam'' dedup_bam sample2, Inr (command, logfile)))))"

fun mark_duplicates_loop ::
  "dict \<Rightarrow> dict list \<Rightarrow> (string \<times> string) list \<Rightarrow> dict list \<times> (string \<times> string) list res" where
  "mark_duplicates_loop tool_config [] instructions = ([], Inr instructions)"
| "mark_duplicates_loop tool_config (sample # rest) instructions =
     (case mark_duplicates_body tool_config sample of
        (sample', Inl e) \<Rightarrow> (sample' # rest, Inl e)
      | (sample', Inr instruction) \<Rightarrow>
          (case mark_duplicates_loop tool_config rest (instructions @ [instruction]) of
             (rest', r) \<Rightarrow> (sample' # rest', r)))"

text \<open>
  The function ends after the loop: the collected instructions are dropped, nothing is
  executed and the caller gets \<open>None\<close> (the unit value here).
\<close>

definition run_mark_duplicates :: "pstate \<Rightarrow> pstate \<times> unit res" where
  "run_mark_duplicates w =
     (let w1 = emit (StdoutWrite (''Running MarkDuplicates'' @ [newline])) w
      in case mark_duplicates_loop (config w1) (sample_config w1) [] of
           (samples, Inl e) \<Rightarrow> (w1\<lparr>sample_config := samples\<rparr>, Inl e)
         | (samples, Inr instructions) \<Rightarrow> (w1\<lparr>sample_config := samples\<rparr>, Inr ()))"

subsection \<open>\<open>add_or_replace_readgroups\<close>\<close>

definition add_or_replace_readgroups_command ::
  "dict \<Rightarrow> string \<Rightarrow> string \<Rightarrow> string \<Rightarrow> string list res" where
  "add_or_replace_readgroups_command cfg sample input_bam output_bam = seq_res
     [lit ''java'',
      tok ''-Xmx'' (cfg2 cfg ''gatk'' ''max_mem'') ''g'',
      lit ''-jar'',
      tok [] (cfg1 cfg ''picard'') [],
      lit ''AddOrReplaceReadGroups'',
      lit (''INPUT='' @ input_bam),
      lit (''OUTPUT='' @ output_bam),
      lit (''RGID='' @ sample),
      lit (''RGSM='' @ sample),
      lit (''RGLB='' @ sample),
      lit ''RGPL=illumina'',
      lit ''RGPU=miseq'']"

definition add_or_replace_readgroups_command2 :: "dict \<Rightarrow> string \<Rightarrow> string list res" where
  "add_or_replace_readgroups_command2 cfg output_bam = seq_res
     [lit ''java'',
      tok ''-Xmx'' (cfg2 cfg ''gatk'' ''max_mem'') ''g'',
      lit ''-jar'',
      tok [] (cfg1 cfg ''picard'') [],
      lit ''BuildBamIndex'',
      lit (''INPUT='' @ output_bam)]"

definition add_or_replace_readgroups ::
  "pstate \<Rightarrow> string \<Rightarrow> string \<Rightarrow> pstate \<times> string res" where
  "add_or_replace_readgroups w sample input_bam =
     (let w1 = logToMaster (''Running AddOrReplaceReadGroups in sample: '' @ sample) w;
          output_bam = sample @ ''.rg.sorted.bam'';
          logfile = sample @ ''.addreadgroups.log'';
          index_log = sample @ ''.buildindex.log''
      in case add_or_replace_readgroups_command (config w1) sample input_bam output_bam of
           Inl e \<Rightarrow> (w1, Inl e)
         | Inr command \<Rightarrow>
             (case add_or_replace_readgroups_command2 (config w1) output_bam of
                Inl e \<Rightarrow> (w1, Inl e)
              | Inr command2 \<Rightarrow>
                  (do_all
                     [logToMaster (''GATK AddOrReplaceReadGroupsCommand Command: ''
                                   @ repr_tuple command @ [newline]),
                      run_and_log_command (join '' '' command) logfile,
                      logToMaster (''GATK BuildBamIndex Command: '' @ repr_tuple command2 @ [newline]),
                      run_and_log_command (join '' '' command2) index_log] w1,
                   Inr output_bam)))"

subsection \<open>Realignment\<close>

definition realign_target_creator_command ::
  "dict \<Rightarrow> string \<Rightarrow> string \<Rightarrow> string list res" where
  "realign_target_creator_command cfg input_bam targets = seq_res
     [lit ''java'',
      tok ''-Xmx'' (cfg2 cfg ''gatk'' ''max_mem'') ''g'',
      lit ''-jar'',
      tok [] (cfg1 cfg ''gatk'') [],
      lit ''-T'',
      lit ''IndelRealigner'',
      lit ''-R'',
      tok [] (cfg1 cfg ''reference'') [],
      lit ''-I'',
      lit input_bam,
      lit ''-o'',
      lit targets,
      lit ''-known'',
      tok [] (cfg1 cfg ''indel1'') [],
      lit ''-known'',
      tok [] (cfg1 cfg ''indel2'') [],
      lit ''-targetIntervals'',
      lit targets,
      lit ''--read_filter'',
      lit ''NotPrimaryAlignment'']"

definition realign_target_creator ::
  "pstate \<Rightarrow> string \<Rightarrow> string \<Rightarrow> pstate \<times> string res" where
  "realign_target_creator w sample input_bam =
     (let targets = sample @ ''.targets.intervals'';
          targets_log = sample @ ''.targetcreation.log''
      in case realign_target_creator_command (config w) input_bam targets of
           Inl e \<Rightarrow> (w, Inl e)
         | Inr command \<Rightarrow>
             (do_all
                [logToMaster
                   (''GATK RealignerTargetCreator Command: '' @ repr_tuple command @ [newline]),
                 run_and_log_command (join '' '' command) targets_log] w,
              Inr targets))"

definition realign_indels_command ::
  "dict \<Rightarrow> int \<Rightarrow> string \<Rightarrow> string \<Rightarrow> string list res" where
  "realign_indels_command cfg ncpu input_bam targets = seq_res
     [lit ''java'',
      tok ''-Xmx'' (cfg2 cfg ''gatk'' ''max_mem'') ''g'',
      lit ''-jar'',
      tok [] (cfg1 cfg ''gatk'') [],
      lit ''-T'',
      lit ''RealignerTargetCreator'',
      lit ''-R'',
      tok [] (cfg1 cfg ''reference'') [],
      lit ''-I'',
      lit input_bam,
      lit ''-o'',
      lit targets,
      lit ''-known'',
      tok [] (cfg1 cfg ''indel1'') [],
      lit ''-known'',
      tok [] (cfg1 cfg ''indel2'') [],
      lit ''-nt'',
      tok [] (Inr (PInt ncpu)) []]"

definition realign_indels ::
  "pstate \<Rightarrow> string \<Rightarrow> string \<Rightarrow> string \<Rightarrow> pstate \<times> string res" where
  "realign_indels w sample input_bam targets =
     (let output_bam = sample @ ''.realigned.sorted.bam'';
          realign_log = sample @ ''.realignindels.log''
      in case realign_indels_command (config w) (cpu_count w) input_bam targets of
           Inl e \<Rightarrow> (w, Inl e)
         | Inr command \<Rightarrow>
             (do_all
                [logToMaster (''GATK IndelRealigner Command: '' @ repr_tuple command @ [newline]),
                 touch output_bam,
                 run_and_log_command (join '' '' command) realign_log] w,
              Inr output_bam))"

subsection \<open>\<open>recalibrator\<close>\<close>

definition recal_commands :: "dict \<Rightarrow> int \<Rightarrow> string \<Rightarrow> string \<Rightarrow> string list res" where
  "recal_commands cfg ncpu input_bam recal_config = seq_res
     [lit ''java'',
      tok ''-Xmx'' (cfg2 cfg ''gatk'' ''max_mem'') ''g'',
      lit ''-jar'',
      tok [] (cfg1 cfg ''gatk'') [],
      lit ''-T'',
      lit ''BaseRecalibrator'',
      lit ''-R'',
      tok [] (cfg1 cfg ''reference'') [],
      lit ''-I'',
      lit input_bam,
      lit ''-o'',
      lit recal_config,
      lit ''--knownSites'',
      tok [] (cfg1 cfg ''dbsnp'') [],
      lit ''-nct'',
      tok [] (Inr (PInt ncpu)) []]"

definition print_reads_command ::
  "dict \<Rightarrow> int \<Rightarrow> string \<Rightarrow> string \<Rightarrow> string \<Rightarrow> string list res" where
  "print_reads_command cfg ncpu input_bam output_bam recal_config = seq_res
     [lit ''java'',
      tok ''-Xmx'' (cfg2 cfg ''gatk'' ''max_mem'') ''g'',
      lit ''-jar'',
      tok [] (cfg1 cfg ''gatk'') [],
      lit ''-T'',
      lit ''PrintReads'',
      lit ''-R'',
      tok [] (cfg1 cfg ''reference'') [],
      lit ''-I'',
      lit input_bam,
      lit ''-o'',
      lit output_bam,
      lit ''-BQSR'',
      lit recal_config,
      lit ''-nct'',
      tok [] (Inr (PInt ncpu)) []]"

definition cp_command :: "string \<Rightarrow> string list" where
  "cp_command sample =
     [''cp'', sample @ ''.recalibrated.sorted.bai'', sample @ ''.recalibrated.sorted.bam.bai'']"

definition recalibrator :: "pstate \<Rightarrow> string \<Rightarrow> string \<Rightarrow> pstate \<times> string res" where
  "recalibrator w sample input_bam =
     (let output_bam = sample @ ''.recalibrated.sorted.bam'';
          recal_config = sample @ ''.recal'';
          recal_log = sample @ ''.recalibrate.log'';
          print_log = sample @ ''.printrecalibrated.log'';
          cp_log = sample @ ''.copy.log''
      in case recal_commands (config w) (cpu_count w) input_bam recal_config of
           Inl e \<Rightarrow> (w, Inl e)
         | Inr command \<Rightarrow>
             (case print_reads_command (config w) (cpu_count w) input_bam output_bam recal_config of
                Inl e \<Rightarrow> (w, Inl e)
              | Inr command2 \<Rightarrow>
                  (do_all
                     [logToMaster (''GATK BaseRecalibrator Command: '' @ repr_tuple command @ [newline]),
                      run_and_log_command (join '' '' command) recal_log,
                      logToMaster (''GATK PrintReads Command: '' @ repr_tuple command2 @ [newline]),
                      run_and_log_command (join '' '' command2) print_log,
                      logToMaster (''GATK Copy Command: '' @ repr_tuple (cp_command sample) @ [newline]),
                      run_and_log_command (join '' '' (cp_command sample)) cp_log] w,
                   Inr output_bam)))"

section \<open>variation/platypus.py\<close>

definition platypus_command ::
  "dict \<Rightarrow> int \<Rightarrow> string \<Rightarrow> string \<Rightarrow> string \<Rightarrow> string list res" where
  "platypus_command cfg ncpu input_bam internal_log platypus_vcf = seq_res
     [tok [] (cfg1 cfg ''platypus'') [],
      lit ''callVariants'',
      tok ''--refFile='' (cfg1 cfg ''reference'') [],
      tok ''--regions='' (cfg1 cfg ''platypus_regions'') [],
      lit ''--assemble=1'',
      lit ''--assembleBrokenPairs=1'',
      lit ''--filterDuplicates=0'',
      tok ''--nCPU='' (Inr (PInt ncpu)) [],
      lit (''--logFileName='' @ internal_log),
      lit (''--bamFiles='' @ input_bam),
      lit (''--output='' @ platypus_vcf)]"

text \<open>
  The call of \<open>pipeline.run_and_log_command\<close> is commented out in the source; the
  function sleeps for two seconds in its place.
\<close>

definition platypus_single :: "pstate \<Rightarrow> string \<Rightarrow> string \<Rightarrow> pstate \<times> string res" where
  "platypus_single w sample input_bam =
     (let platypus_vcf = sample @ ''.platypus.vcf'';
          platypus_log = sample @ ''.platypus.log'';
          internal_log = sample @ ''.platypus_internal.log''
      in case platypus_command (config w) (cpu_count w) input_bam internal_log platypus_vcf of
           Inl e \<Rightarrow> (w, Inl e)
         | Inr command \<Rightarrow>
             (do_all
                [logToMaster (''Platypus Command: '' @ repr_tuple command @ [newline]),
                 emit (Sleep 2)] w,
              Inr platypus_vcf))"

section \<open>The stages as one family\<close>

text \<open>
  The eleven functions with the signature \<open>(job, config, sample, inputs...)\<close>, and one
  entry point that calls each of them with the arguments it takes.
\<close>

datatype stage =
    Snpeff | Gemini | Vcfanno
  | Diagnosetargets | AnnotateVcf | FilterVariants
  | AddOrReplaceReadgroups | RealignTargetCreator | RealignIndels | Recalibrator
  | PlatypusSingle

record stage_args =
  a_input_vcf :: string
  a_input_bam :: string
  a_targets :: string
  a_num_threads :: int

fun call :: "stage \<Rightarrow> pstate \<Rightarrow> string \<Rightarrow> stage_args \<Rightarrow> pstate \<times> string res" where
  "call Snpeff w sample a = snpeff w sample (a_input_vcf a)"
| "call Gemini w sample a = gemini w sample (a_input_vcf a)"
| "call Vcfanno w sample a = vcfanno w sample (a_input_vcf a)"
| "call Diagnosetargets w sample a = diagnosetargets w sample (a_input_bam a)"
| "call AnnotateVcf w sample a =
     annotate_vcf w sample (a_input_vcf a) (a_input_bam a) (a_num_threads a)"
| "call FilterVariants w sample a = filter_variants w sample (a_input_vcf a)"
| "call AddOrReplaceReadgroups w sample a = add_or_replace_readgroups w sample (a_input_bam a)"
| "call RealignTargetCreator w sample a = realign_target_creator w sample (a_input_bam a)"
| "call RealignIndels w sample a = realign_indels w sample (a_input_bam a) (a_targets a)"
| "call Recalibrator w sample a = recalibrator w sample (a_input_bam a)"
| "call PlatypusSingle w sample a = platypus_single w sample (a_input_bam a)"

text \<open>The effects a call added to the trace, and the external invocations among them.\<close>

definition new_effects :: "pstate \<Rightarrow> pstate \<Rightarrow> effect list" where
  "new_effects w w' = drop (length (effects w)) (effects w')"

fun runs :: "effect list \<Rightarrow> (string \<times> string) list" where
  "runs [] = []"
| "runs (RunAndLog command logfile # es) = (command, logfile) # runs es"
| "runs (e # es) = runs es"

text \<open>
  The configuration entries the body of each stage reads, as subscription paths, one
  for each \<open>config[...]\<close> expression of the body. This is what the code looks up, not
  what the tool needs: \<open>realign_target_creator\<close>, \<open>realign_indels\<close> and
  \<open>recalibrator\<close> format the whole entry \<open>config['gatk']\<close> as the jar and never look
  up \<open>config['gatk']['bin']\<close>.
\<close>

fun config_reads :: "stage \<Rightarrow> string list list" where
  "config_reads Snpeff =
     [[''snpeff'', ''reference''], [''snpeff'', ''bin''], [''snpeff'', ''max_mem'']]"
| "config_reads Gemini =
     [[''snpeff'', ''reference''], [''gemini'', ''bin''], [''gemini'', ''num_cores'']]"
| "config_reads Vcfanno =
     [[''snpeff'', ''reference''], [''vcfanno'', ''bin''], [''vcfanno'', ''num_cores''],
      [''vcfanno'', ''lua''], [''vcfanno'', ''conf'']]"
| "config_reads Diagnosetargets =
     [[''gatk'', ''bin''], [''reference''], [''regions''], [''coverage_loci_threshold''],
      [''bad_mate_threshold''], [''coverage_threshold''], [''quality_loci_threshold'']]"
| "config_reads AnnotateVcf =
     [[''gatk'', ''max_mem''], [''gatk'', ''bin''], [''reference''], [''dbsnp'']]"
| "config_reads FilterVariants =
     [[''gatk'', ''max_mem''], [''gatk'', ''bin''], [''reference''], [''coverage_threshold'']]"
| "config_reads AddOrReplaceReadgroups = [[''gatk'', ''max_mem''], [''picard'']]"
| "config_reads RealignTargetCreator =
     [[''gatk'', ''max_mem''], [''gatk''], [''reference''], [''indel1''], [''indel2'']]"
| "config_reads RealignIndels =
     [[''gatk'', ''max_mem''], [''gatk''], [''reference''], [''indel1''], [''indel2'']]"
| "config_reads Recalibrator =
     [[''gatk'', ''max_mem''], [''gatk''], [''reference''], [''dbsnp'']]"
| "config_reads PlatypusSingle = [[''platypus''], [''reference''], [''platypus_regions'']]"

text \<open>
  The argument vectors a stage constructs, in the order of the source, each with the
  log file it is paired with in the body.
\<close>

fun commands ::
  "stage \<Rightarrow> dict \<Rightarrow> int \<Rightarrow> string \<Rightarrow> stage_args \<Rightarrow> (string list \<times> string) list res" where
  "commands Snpeff cfg ncpu sample a =
     bind_res (cfg2 cfg ''snpeff'' ''reference'') (\<lambda>reference.
     bind_res (snpeff_command cfg (a_input_vcf a)
                 (sample @ ''.snpEff.'' @ format reference @ ''.vcf'')) (\<lambda>c.
       Inr [(c, sample @ ''.snpeff.log'')]))"
| "commands Gemini cfg ncpu sample a =
     bind_res (cfg2 cfg ''snpeff'' ''reference'') (\<lambda>reference.
     bind_res (gemini_command cfg (a_input_vcf a)
                 (sample @ ''.snpEff.'' @ format reference @ ''.db'')) (\<lambda>c.
       Inr [(c, sample @ ''.gemini.log'')]))"
| "commands Vcfanno cfg ncpu sample a =
     bind_res (cfg2 cfg ''snpeff'' ''reference'') (\<lambda>reference.
     bind_res (vcfanno_command cfg (a_input_vcf a)
                 (sample @ ''.vcfanno.snpEff.'' @ format reference @ ''.vcf'')) (\<lambda>c.
       Inr [(c, sample @ ''.vcfanno.log'')]))"
| "commands Diagnosetargets cfg ncpu sample a =
     bind_res (diagnosetargets_command cfg (a_input_bam a)
                 (sample @ ''.diagnosetargets.vcf'') (sample @ ''.missing.intervals'')) (\<lambda>c.
       Inr [(c, sample @ ''.diagnose_targets.log'')])"
| "commands AnnotateVcf cfg ncpu sample a =
     bind_res (annotation_command cfg (a_input_vcf a) (a_input_bam a) (a_num_threads a)
                 (sample @ ''.annotated.vcf'')) (\<lambda>c.
       Inr [(c, sample @ ''.variantannotation.log'')])"
| "commands FilterVariants cfg ncpu sample a =
     bind_res (filter_command cfg (a_input_vcf a) (sample @ ''.filtered.vcf'')) (\<lambda>c.
       Inr [(c, sample @ ''.variantfiltration.log'')])"
| "commands AddOrReplaceReadgroups cfg ncpu sample a =
     bind_res (add_or_replace_readgroups_command cfg sample (a_input_bam a)
                 (sample @ ''.rg.sorted.bam'')) (\<lambda>c.
     bind_res (add_or_replace_readgroups_command2 cfg (sample @ ''.rg.sorted.bam'')) (\<lambda>c2.
       Inr [(c, sample @ ''.addreadgroups.log''), (c2, sample @ ''.buildindex.log'')]))"
| "commands RealignTargetCreator cfg ncpu sample a =
     bind_res (realign_target_creator_command cfg (a_input_bam a)
                 (sample @ ''.targets.intervals'')) (\<lambda>c.
       Inr [(c, sample @ ''.targetcreation.log'')])"
| "commands RealignIndels cfg ncpu sample a =
     bind_res (realign_indels_command cfg ncpu (a_input_bam a) (a_targets a)) (\<lambda>c.
       Inr [(c, sample @ ''.realignindels.log'')])"
| "commands Recalibrator cfg ncpu sample a =
     bind_res (recal_commands cfg ncpu (a_input_bam a) (sample @ ''.recal'')) (\<lambda>c.
     bind_res (print_reads_command cfg ncpu (a_input_bam a)
                 (sample @ ''.recalibrated.sorted.bam'') (sample @ ''.recal'')) (\<lambda>c2.
       Inr [(c, sample @ ''.recalibrate.log''), (c2, sample @ ''.printrecalibrated.log''),
            (cp_command sample, sample @ ''.copy.log'')]))"
| "commands PlatypusSingle cfg ncpu sample a =
     bind_res (platypus_command cfg ncpu (a_input_bam a)
                 (sample @ ''.platypus_internal.log'') (sample @ ''.platypus.vcf'')) (\<lambda>c.
       Inr [(c, sample @ ''.platypus.log'')])"

text \<open>
  The naming convention of the output artifact: the file name each stage derives for
  what it returns, from the sample and, for the snpEff family, the formatted
  \<open>config['snpeff']['reference']\<close>.
\<close>

fun artifact :: "stage \<Rightarrow> string \<Rightarrow> string \<Rightarrow> string" where
  "artifact Snpeff sample reference = sample @ ''.snpEff.'' @ reference @ ''.vcf''"
| "artifact Gemini sample reference = sample @ ''.snpEff.'' @ reference @ ''.db''"
| "artifact Vcfanno sample reference = sample @ ''.vcfanno.snpEff.'' @ reference @ ''.vcf''"
| "artifact Diagnosetargets sample reference = sample @ ''.diagnosetargets.vcf''"
| "artifact AnnotateVcf sample reference = sample @ ''.annotated.vcf''"
| "artifact FilterVariants sample reference = sample @ ''.filtered.vcf''"
| "artifact AddOrReplaceReadgroups sample reference = sample @ ''.rg.sorted.bam''"
| "artifact RealignTargetCreator sample reference = sample @ ''.targets.intervals''"
| "artifact RealignIndels sample reference = sample @ ''.realigned.sorted.bam''"
| "artifact Recalibrator sample reference = sample @ ''.recalibrated.sorted.bam''"
| "artifact PlatypusSingle sample reference = sample @ ''.platypus.vcf''"

text \<open>The formatted snpEff reference of a configuration (empty when the entry is missing).\<close>

definition snpeff_reference :: "dict \<Rightarrow> string" where
  "snpeff_reference cfg =
     (case cfg2 cfg ''snpeff'' ''reference'' of Inl e \<Rightarrow> [] | Inr reference \<Rightarrow> format reference)"

section \<open>Tables used to state the properties\<close>


text \<open>The stages whose output name contains the snpEff reference.\<close>

fun names_reference :: "stage \<Rightarrow> bool" where
  "names_reference Snpeff = True"
| "names_reference Gemini = True"
| "names_reference Vcfanno = True"
| "names_reference st = False"

text \<open>
  How the command of a stage names the returned artifact \<open>out\<close>: the tokens, the index
  at which they stand in the argument vector, and which of the stage's commands it is
  (the second one, PrintReads, for \<open>recalibrator\<close>). The command of \<open>realign_indels\<close>
  names its returned file in no argument.
\<close>

fun output_tokens :: "stage \<Rightarrow> string \<Rightarrow> string list" where
  "output_tokens Snpeff out = [''>'' @ out]"
| "output_tokens Gemini out = [''-t'', ''snpEff'', out]"
| "output_tokens Vcfanno out = [''>'', out]"
| "output_tokens Diagnosetargets out = [''-o'', out]"
| "output_tokens AnnotateVcf out = [''-o'', out]"
| "output_tokens FilterVariants out = [''-o'', out]"
| "output_tokens AddOrReplaceReadgroups out = [''OUTPUT='' @ out]"
| "output_tokens RealignTargetCreator out = [''-o'', out]"
| "output_tokens RealignIndels out = []"
| "output_tokens Recalibrator out = [''-o'', out]"
| "output_tokens PlatypusSingle out = [''--output='' @ out]"

fun output_index :: "stage \<Rightarrow> nat" where
  "output_index Snpeff = 5"
| "output_index Gemini = 7"
| "output_index Vcfanno = 7"
| "output_index Diagnosetargets = 20"
| "output_index AnnotateVcf = 20"
| "output_index FilterVariants = 26"
| "output_index AddOrReplaceReadgroups = 6"
| "output_index RealignTargetCreator = 10"
| "output_index RealignIndels = 10"
| "output_index Recalibrator = 10"
| "output_index PlatypusSingle = 10"

fun output_command :: "stage \<Rightarrow> nat" where
  "output_command Recalibrator = 1"
| "output_command st = 0"






text \<open>The configuration entries \<open>run_mark_duplicates\<close> reads for each sample record.\<close>

definition mark_duplicates_keys :: "string list list" where
  "mark_duplicates_keys = [[''gatk'', ''max_mem''], [''picard'', ''bin'']]"

section \<open>A concrete configuration\<close>

text \<open>
  One configuration with every entry the stages read, one state built on it (a single
  sample record, four processors, an empty trace) and one set of input paths. They are
  the inputs at which the theorems below are instantiated.
\<close>

definition example_config :: dict where
  "example_config =
     [(''snpeff'', PDict [(''bin'', PStr ''snpEff''), (''max_mem'', PInt 4),
                          (''reference'', PStr ''GRCh37'')]),
      (''gemini'', PDict [(''bin'', PStr ''gemini''), (''num_cores'', PInt 4)]),
      (''vcfanno'', PDict [(''bin'', PStr ''vcfanno''), (''num_cores'', PInt 4),
                           (''lua'', PStr ''custom.lua''), (''conf'', PStr ''conf.toml'')]),
      (''gatk'', PDict [(''bin'', PStr ''gatk.jar''), (''max_mem'', PInt 8)]),
      (''picard'', PDict [(''bin'', PStr ''picard.jar'')]),
      (''reference'', PStr ''hg19.fa''),
      (''regions'', PStr ''panel.bed''),
      (''coverage_loci_threshold'', PInt 20),
      (''bad_mate_threshold'', PInt 5),
      (''coverage_threshold'', PInt 100),
      (''quality_loci_threshold'', PInt 20),
      (''dbsnp'', PStr ''dbsnp.vcf''),
      (''indel1'', PStr ''mills.vcf''),
      (''indel2'', PStr ''1000g.vcf''),
      (''platypus'', PStr ''Platypus.py''),
      (''platypus_regions'', PStr ''panel.txt'')]"

definition example_state :: pstate where
  "example_state =
     \<lparr>config = example_config,
      sample_config = [[(''name'', PStr ''S1''), (''working_bam'', PStr ''S1.sorted.bam'')]],
      cpu_count = 4,
      effects = []\<rparr>"

definition example_args :: stage_args where
  "example_args =
     \<lparr>a_input_vcf = ''S1.vcf'', a_input_bam = ''S1.bam'',
      a_targets = ''S1.targets.intervals'', a_num_threads = 2\<rparr>"

text \<open>
  A second state: the same configuration with another genome, \<open>config['reference']\<close>
  and \<open>config['snpeff']['reference']\<close> both replaced.
\<close>

definition example_state_b :: pstate where
  "example_state_b =
     example_state\<lparr>config :=
       setitem ''reference'' (PStr ''hg38.fa'')
         (setitem ''snpeff'' (PDict [(''bin'', PStr ''snpEff''), (''max_mem'', PInt 4),
                                     (''reference'', PStr ''GRCh38'')]) example_config)\<rparr>"

text \<open>A state whose configuration lacks most entries.\<close>

definition incomplete_state :: pstate where
  "incomplete_state =
     example_state\<lparr>config := [(''snpeff'', PDict [(''reference'', PStr ''GRCh37'')])]\<rparr>"

text \<open>
  A state whose configuration has no \<open>config['gatk']['bin']\<close>: the \<open>gatk\<close> entry holds
  the memory limit only.
\<close>

definition no_jar_state :: pstate where
  "no_jar_state =
     example_state\<lparr>config := setitem ''gatk'' (PDict [(''max_mem'', PInt 8)]) example_config\<rparr>"

section \<open>Facts about command construction\<close>

lemma seq_res_Inl_mem: "seq_res rs = Inl e \<Longrightarrow> Inl e \<in> set rs"
  by (induction rs rule: seq_res.induct) (auto split: sum.splits)

lemma seq_res_isl_iff: "isl (seq_res rs) \<longleftrightarrow> (\<exists>r\<in>set rs. isl r)"
  by (induction rs rule: seq_res.induct) (auto split: sum.splits)

lemma seq_res_Inr_iff: "seq_res rs = Inr xs \<longleftrightarrow> rs = map Inr xs"
proof (induction rs arbitrary: xs)
  case Nil
  show ?case by auto
next
  case (Cons r rs)
  show ?case
    by (cases r; cases "seq_res rs"; cases xs) (auto simp: Cons.IH [symmetric])
qed

lemma tok_Inl_iff [simp]: "tok pre r post = Inl e \<longleftrightarrow> r = Inl e"
  by (simp add: tok_def split: sum.splits)

lemma Inl_eq_tok_iff [simp]: "Inl e = tok pre r post \<longleftrightarrow> r = Inl e"
  by (auto simp: tok_def split: sum.splits)

lemma tok_Inr [simp]: "tok pre (Inr v) post = Inr (pre @ format v @ post)"
  by (simp add: tok_def)

lemma isl_tok [simp]: "isl (tok pre r post) = isl r"
  by (simp add: tok_def split: sum.splits)

lemma lit_not_Inl [simp]: "lit s \<noteq> Inl e" "Inl e \<noteq> lit s" "\<not> isl (lit s)"
  by (simp_all add: lit_def)

lemma bind_res_simps [simp]: "bind_res (Inl e) f = Inl e" "bind_res (Inr x) f = f x"
  by (simp_all add: bind_res_def)

lemma bind_res_Inl_iff:
  "bind_res r f = Inl e \<longleftrightarrow> r = Inl e \<or> (\<exists>x. r = Inr x \<and> f x = Inl e)"
  by (cases r) simp_all

lemma bind_res_Inr_iff: "bind_res r f = Inr y \<longleftrightarrow> (\<exists>x. r = Inr x \<and> f x = Inr y)"
  by (cases r) simp_all

lemma isl_bind_res: "isl (bind_res r f) \<longleftrightarrow> isl r \<or> isl (f (projr r))"
  by (cases r) simp_all

lemmas command_defs = snpeff_command_def gemini_command_def vcfanno_command_def
  diagnosetargets_command_def annotation_command_def filter_command_def
  add_or_replace_readgroups_command_def add_or_replace_readgroups_command2_def
  realign_target_creator_command_def realign_indels_command_def recal_commands_def
  print_reads_command_def platypus_command_def

lemmas effect_defs = do_all_def logToMaster_def run_and_log_command_def touch_def emit_def
  new_effects_def

lemmas stage_defs = snpeff_def gemini_def vcfanno_def diagnosetargets_def annotate_vcf_def
  filter_variants_def add_or_replace_readgroups_def realign_target_creator_def
  realign_indels_def recalibrator_def platypus_single_def

lemma cfg_paths:
  "cfg1 cfg k = lookup_path (PDict cfg) [k]"
  "cfg2 cfg k1 k2 = lookup_path (PDict cfg) [k1, k2]"
  by (simp_all add: cfg1_def cfg2_def)

text \<open>A command construction that raises, raises the error of a lookup the stage makes.\<close>

lemma commands_Inl_read:
  "commands st cfg ncpu sample a = Inl e \<Longrightarrow>
     \<exists>q\<in>set (config_reads st). lookup_path (PDict cfg) q = Inl e"
  by (cases st)
     (auto simp: bind_res_Inl_iff command_defs cfg_paths dest!: seq_res_Inl_mem)

lemma failed_read_commands_Inl:
  "q \<in> set (config_reads st) \<Longrightarrow> isl (lookup_path (PDict cfg) q) \<Longrightarrow>
     isl (commands st cfg ncpu sample a)"
  by (cases st)
     (auto simp: isl_bind_res command_defs cfg_paths seq_res_isl_iff)

text \<open>What a call does, read off the commands it constructs.\<close>

lemma call_raises:
  "commands st (config w) (cpu_count w) sample a = Inl e \<Longrightarrow>
     snd (call st w sample a) = Inl e \<and>
     new_effects w (fst (call st w sample a)) =
       (if st = AddOrReplaceReadgroups
        then [LogToMaster (''Running AddOrReplaceReadGroups in sample: '' @ sample)] else [])"
  by (cases st)
     (auto simp: bind_res_Inl_iff stage_defs effect_defs Let_def split: sum.splits)

lemma call_returns:
  "commands st (config w) (cpu_count w) sample a = Inr cmds \<Longrightarrow>
     snd (call st w sample a) = Inr (artifact st sample (snpeff_reference (config w))) \<and>
     runs (new_effects w (fst (call st w sample a))) =
       (if st = PlatypusSingle then [] else map (\<lambda>(c, l). (join '' '' c, l)) cmds)"
  by (cases st)
     (auto simp: bind_res_Inr_iff stage_defs effect_defs Let_def snpeff_reference_def)

lemma reads_succeed_commands:
  assumes "\<forall>q\<in>set (config_reads st). \<not> isl (lookup_path (PDict cfg) q)"
  shows "\<exists>cmds. commands st cfg ncpu sample a = Inr cmds \<and> cmds \<noteq> []"
proof (cases "commands st cfg ncpu sample a")
  case (Inl e)
  from commands_Inl_read [OF Inl] assms show ?thesis by auto
next
  case (Inr cmds)
  then have "cmds \<noteq> []"
    by (cases st) (auto simp: bind_res_Inr_iff)
  with Inr show ?thesis by simp
qed

lemma call_Inr_artifact:
  assumes "snd (call st w sample a) = Inr out"
  shows "out = artifact st sample (snpeff_reference (config w))"
proof (cases "commands st (config w) (cpu_count w) sample a")
  case (Inl e)
  from call_raises [OF Inl] assms show ?thesis by simp
next
  case (Inr cmds)
  from call_returns [OF Inr] assms show ?thesis by simp
qed

text \<open>Unfolding sets for evaluating the stages at the concrete configuration.\<close>

lemmas example_defs = example_state_def example_config_def example_args_def

lemmas eval_defs = cfg1_def cfg2_def lookup_path.simps show_int_def show_nat.simps digit_char_def
  lit_def Let_def

text \<open>Facts about \<open>run_mark_duplicates\<close>.\<close>

lemma run_mark_duplicates_runs: "runs (new_effects w (fst (run_mark_duplicates w))) = []"
  by (simp add: run_mark_duplicates_def emit_def new_effects_def Let_def split: prod.splits sum.splits)

lemma isl_snd_case_sum:
  "isl r \<Longrightarrow> isl (snd (case r of Inl e \<Rightarrow> (a, Inl e) | Inr c \<Rightarrow> g c))"
  by (cases r) auto

lemma mark_duplicates_command_raises:
  assumes "q \<in> set mark_duplicates_keys" and "isl (lookup_path (PDict tool_config) q)"
  shows "isl (mark_duplicates_command tool_config s m)"
  using assms
  by (auto simp: mark_duplicates_keys_def mark_duplicates_command_def cfg_paths isl_bind_res)

lemma mark_duplicates_body_raises:
  assumes "q \<in> set mark_duplicates_keys" and "isl (lookup_path (PDict tool_config) q)"
  shows "isl (snd (mark_duplicates_body tool_config sample))"
proof (cases "getitem (PDict sample) ''name''")
  case (Inl e)
  then show ?thesis by (simp add: mark_duplicates_body_def)
next
  case (Inr name)
  note n = this
  show ?thesis
    unfolding mark_duplicates_body_def n
    by (simp add: Let_def isl_snd_case_sum mark_duplicates_command_raises [OF assms])
qed

lemma run_mark_duplicates_raises:
  assumes "sample_config w \<noteq> []" and "q \<in> set mark_duplicates_keys"
    and "isl (lookup_path (PDict (config w)) q)"
  shows "isl (snd (run_mark_duplicates w))"
proof -
  from assms(1) obtain s ss where s: "sample_config w = s # ss"
    by (cases "sample_config w") auto
  from mark_duplicates_body_raises [OF assms(2,3), of s]
  obtain s' e where "mark_duplicates_body (config w) s = (s', Inl e)"
    by (cases "mark_duplicates_body (config w) s") (auto simp: isl_def)
  then show ?thesis
    by (simp add: run_mark_duplicates_def emit_def Let_def s)
qed

text \<open>The tokens of a command that was built without an exception.\<close>

lemma seq_res_Inr_projr: "seq_res rs = Inr xs \<Longrightarrow> xs = map projr rs"
  by (simp add: seq_res_Inr_iff comp_def)

lemma projr_lit [simp]: "projr (lit s) = s"
  by (simp add: lit_def)



text \<open>The decimal representation ends with a digit.\<close>

lemma show_nat_last: "show_nat n \<noteq> [] \<and> last (show_nat n) = digit_char (n mod 10)"
  by (subst (1 2) show_nat.simps) simp

lemma digit_char_mem: "k < 10 \<Longrightarrow> digit_char k \<in> set ''0123456789''"
  unfolding digit_char_def by (rule nth_mem) simp

lemma show_int_last: "show_int i \<noteq> [] \<and> last (show_int i) \<in> set ''0123456789''"
proof -
  have "last (show_nat n) \<in> set ''0123456789''" for n
    using show_nat_last [of n] digit_char_mem [of "n mod 10"] by simp
  then show ?thesis
    using show_nat_last by (simp add: show_int_def)
qed

lemma realigned_name_neq:
  "x = [] \<or> last x \<noteq> CHR ''m'' \<Longrightarrow> sample @ ''.realigned.sorted.bam'' \<noteq> x"
  by auto

text \<open>
  \<open>run_mark_duplicates\<close> on one sample record: the record gets the keys \<open>'dedup_bam'\<close>
  and a new \<open>'working_bam'\<close>, and the function returns \<open>None\<close>.
\<close>

lemma run_mark_duplicates_example:
  "sample_config example_state =
     [[(''name'', PStr ''S1''), (''working_bam'', PStr ''S1.sorted.bam'')]] \<and>
   sample_config (fst (run_mark_duplicates example_state)) =
     [[(''name'', PStr ''S1''), (''working_bam'', PStr ''S1.dedup.sorted.bam''),
       (''dedup_bam'', PStr ''S1.dedup.sorted.bam'')]] \<and>
   snd (run_mark_duplicates example_state) = Inr ()"
  by (simp add: run_mark_duplicates_def mark_duplicates_body_def mark_duplicates_command_def
        setitem_def emit_def example_defs eval_defs)

section \<open>Properties of the specification\<close>

text \<open>
  C1. Every stage is to pass the command it constructs to \<open>run_and_log_command\<close> and
  to return the derived path. \<open>platypus_single\<close> does not: with a configuration that
  holds every entry it reads, it returns \<open>{sample}.platypus.vcf\<close>, but the call of
  \<open>run_and_log_command\<close> is commented out in its body, so the trace of the call holds no
  external invocation.
\<close>

theorem platypus_single_runs_nothing:
  "snd (call PlatypusSingle example_state ''S1'' example_args) = Inr ''S1.platypus.vcf'' \<and>
   runs (new_effects example_state (fst (call PlatypusSingle example_state ''S1'' example_args))) = []"
  by (simp add: platypus_single_def platypus_command_def example_defs eval_defs effect_defs)

text \<open>
  The property of C1 on the other stages. For each of the eleven job stages, a call with
  a configuration in which every lookup of the stage succeeds constructs at least one
  command and returns the derived artifact path; every stage but \<open>platypus_single\<close>
  passes each constructed command, joined by blanks and paired with its log file, to
  \<open>run_and_log_command\<close>, in the order of construction.
\<close>

theorem stage_invokes_and_returns:
  assumes "\<forall>q\<in>set (config_reads st). \<not> isl (lookup_path (PDict (config w)) q)"
  shows "\<exists>cmds. commands st (config w) (cpu_count w) sample a = Inr cmds \<and> cmds \<noteq> [] \<and>
           snd (call st w sample a) = Inr (artifact st sample (snpeff_reference (config w))) \<and>
           runs (new_effects w (fst (call st w sample a))) =
             (if st = PlatypusSingle then [] else map (\<lambda>(c, l). (join '' '' c, l)) cmds)"
proof -
  from reads_succeed_commands [OF assms]
  obtain cmds where c: "commands st (config w) (cpu_count w) sample a = Inr cmds" "cmds \<noteq> []"
    by blast
  from call_returns [OF c(1)] c show ?thesis by blast
qed

theorem stage_invokes_and_returns_witness:
  "snd (call Gemini example_state ''S1'' example_args) = Inr ''S1.snpEff.GRCh37.db'' \<and>
   runs (new_effects example_state (fst (call Gemini example_state ''S1'' example_args))) =
     [(''gemini load --cores 4 --save-info-string -v S1.vcf -t snpEff S1.snpEff.GRCh37.db'',
       ''S1.gemini.log'')]"
proof -
  have h: "\<forall>q\<in>set (config_reads Gemini). \<not> isl (lookup_path (PDict (config example_state)) q)"
    by (simp add: example_defs lookup_path.simps)
  show ?thesis
    using stage_invokes_and_returns [OF h, of "''S1''" example_args]
    by (simp add: gemini_def gemini_command_def example_defs eval_defs effect_defs)
qed

text \<open>
  C2, as stated, fails: \<open>recalibrator\<close> makes three external invocations, not two. The
  third copies the index file with \<open>cp\<close>.
\<close>

theorem recalibrator_three_runs:
  "map snd (runs (new_effects example_state (fst (recalibrator example_state ''S1'' ''S1.bam'')))) =
     [''S1.recalibrate.log'', ''S1.printrecalibrated.log'', ''S1.copy.log''] \<and>
   fst (runs (new_effects example_state (fst (recalibrator example_state ''S1'' ''S1.bam''))) ! 2) =
     ''cp S1.recalibrated.sorted.bai S1.recalibrated.sorted.bam.bai''"
  by (simp add: recalibrator_def recal_commands_def print_reads_command_def cp_command_def
        example_defs eval_defs effect_defs)

text \<open>
  C2, amended. With a configuration in which the four entries \<open>recalibrator\<close> reads are
  present, it makes exactly three external invocations, in this order: BaseRecalibrator,
  PrintReads, and the \<open>cp\<close> of the index. The file \<open>{sample}.recal\<close> given to
  BaseRecalibrator after \<open>-o\<close> is the argument of \<open>-BQSR\<close> in the PrintReads invocation,
  and the call returns \<open>{sample}.recalibrated.sorted.bam\<close>.
\<close>

theorem recalibrator_invocations:
  assumes "cfg2 (config w) ''gatk'' ''max_mem'' = Inr max_mem"
    and "cfg1 (config w) ''gatk'' = Inr gatk"
    and "cfg1 (config w) ''reference'' = Inr reference"
    and "cfg1 (config w) ''dbsnp'' = Inr dbsnp"
  shows "runs (new_effects w (fst (recalibrator w sample input_bam))) =
           [(join '' '' [''java'', ''-Xmx'' @ format max_mem @ ''g'', ''-jar'', format gatk,
                         ''-T'', ''BaseRecalibrator'', ''-R'', format reference,
                         ''-I'', input_bam, ''-o'', sample @ ''.recal'',
                         ''--knownSites'', format dbsnp, ''-nct'', show_int (cpu_count w)],
             sample @ ''.recalibrate.log''),
            (join '' '' [''java'', ''-Xmx'' @ format max_mem @ ''g'', ''-jar'', format gatk,
                         ''-T'', ''PrintReads'', ''-R'', format reference,
                         ''-I'', input_bam, ''-o'', sample @ ''.recalibrated.sorted.bam'',
                         ''-BQSR'', sample @ ''.recal'', ''-nct'', show_int (cpu_count w)],
             sample @ ''.printrecalibrated.log''),
            (join '' '' [''cp'', sample @ ''.recalibrated.sorted.bai'',
                         sample @ ''.recalibrated.sorted.bam.bai''],
             sample @ ''.copy.log'')] \<and>
         snd (recalibrator w sample input_bam) = Inr (sample @ ''.recalibrated.sorted.bam'')"
  using assms
  by (simp add: recalibrator_def recal_commands_def print_reads_command_def cp_command_def
        lit_def Let_def effect_defs)

theorem recalibrator_invocations_witness:
  "map snd (runs (new_effects example_state (fst (recalibrator example_state ''S1'' ''S1.bam'')))) =
     [''S1.recalibrate.log'', ''S1.printrecalibrated.log'', ''S1.copy.log''] \<and>
   snd (recalibrator example_state ''S1'' ''S1.bam'') = Inr ''S1.recalibrated.sorted.bam''"
proof -
  have m: "cfg2 (config example_state) ''gatk'' ''max_mem'' = Inr (PInt 8)"
    by (simp add: example_defs eval_defs)
  have g: "cfg1 (config example_state) ''gatk'' =
             Inr (PDict [(''bin'', PStr ''gatk.jar''), (''max_mem'', PInt 8)])"
    by (simp add: example_defs eval_defs)
  have r: "cfg1 (config example_state) ''reference'' = Inr (PStr ''hg19.fa'')"
    by (simp add: example_defs eval_defs)
  have d: "cfg1 (config example_state) ''dbsnp'' = Inr (PStr ''dbsnp.vcf'')"
    by (simp add: example_defs eval_defs)
  show ?thesis
    using recalibrator_invocations [OF m g r d, of "''S1''" "''S1.bam''"] by simp
qed

text \<open>
  C3. For sample \<open>"S1"\<close> and a configuration whose \<open>config['snpeff']['reference']\<close> is
  \<open>"GRCh37"\<close> (and which holds the two other entries \<open>snpeff\<close> reads, the executable and
  the memory limit), \<open>snpeff\<close> returns the path \<open>"S1.snpEff.GRCh37.vcf"\<close>, and its single
  external invocation is given the log file \<open>"S1.snpeff.log"\<close>.
\<close>

theorem snpeff_example:
  assumes "cfg2 (config w) ''snpeff'' ''reference'' = Inr (PStr ''GRCh37'')"
    and "cfg2 (config w) ''snpeff'' ''bin'' = Inr bin"
    and "cfg2 (config w) ''snpeff'' ''max_mem'' = Inr max_mem"
  shows "snd (snpeff w ''S1'' input_vcf) = Inr ''S1.snpEff.GRCh37.vcf'' \<and>
         runs (new_effects w (fst (snpeff w ''S1'' input_vcf))) =
           [(join '' '' [format bin, ''-Xmx'' @ format max_mem @ ''g'', ''-v'', ''GRCh37'',
                         input_vcf, ''>S1.snpEff.GRCh37.vcf''],
             ''S1.snpeff.log'')]"
  using assms by (simp add: snpeff_def snpeff_command_def lit_def effect_defs Let_def)

theorem snpeff_example_witness:
  "snd (snpeff example_state ''S1'' ''S1.vcf'') = Inr ''S1.snpEff.GRCh37.vcf'' \<and>
   runs (new_effects example_state (fst (snpeff example_state ''S1'' ''S1.vcf''))) =
     [(''snpEff -Xmx4g -v GRCh37 S1.vcf >S1.snpEff.GRCh37.vcf'', ''S1.snpeff.log'')]"
proof -
  have r: "cfg2 (config example_state) ''snpeff'' ''reference'' = Inr (PStr ''GRCh37'')"
    by (simp add: example_state_def example_config_def cfg2_def lookup_path.simps)
  have b: "cfg2 (config example_state) ''snpeff'' ''bin'' = Inr (PStr ''snpEff'')"
    by (simp add: example_state_def example_config_def cfg2_def lookup_path.simps)
  have m: "cfg2 (config example_state) ''snpeff'' ''max_mem'' = Inr (PInt 4)"
    by (simp add: example_state_def example_config_def cfg2_def lookup_path.simps)
  show ?thesis
    using snpeff_example [OF r b m, of "''S1.vcf''"]
    by (simp add: show_int_def show_nat.simps digit_char_def)
qed

text \<open>
  C4, as stated, fails: the name \<open>annotate_vcf\<close> derives does not contain the reference,
  so two runs for the same sample with different references return the same path.
\<close>

theorem annotate_vcf_same_name:
  "cfg1 (config example_state) ''reference'' = Inr (PStr ''hg19.fa'') \<and>
   cfg1 (config example_state_b) ''reference'' = Inr (PStr ''hg38.fa'') \<and>
   snd (call AnnotateVcf example_state ''S1'' example_args) = Inr ''S1.annotated.vcf'' \<and>
   snd (call AnnotateVcf example_state_b ''S1'' example_args) = Inr ''S1.annotated.vcf''"
  by (simp add: annotate_vcf_def annotation_command_def example_state_b_def setitem_def
        example_defs eval_defs)

text \<open>
  C4, amended. Two returning runs of one stage for the same sample: for \<open>snpeff\<close>,
  \<open>gemini\<close> and \<open>vcfanno\<close> the output paths are equal exactly when the two
  configurations' \<open>config['snpeff']['reference']\<close> format to the same string, so distinct
  reference strings give distinct paths; for every other stage the output path depends
  on the sample alone and the two paths are equal.
\<close>

theorem output_name_by_reference:
  assumes "snd (call st w1 sample a1) = Inr out1" and "snd (call st w2 sample a2) = Inr out2"
  shows "if names_reference st
         then (out1 = out2 \<longleftrightarrow> snpeff_reference (config w1) = snpeff_reference (config w2))
         else out1 = out2"
  using call_Inr_artifact [OF assms(1)] call_Inr_artifact [OF assms(2)]
  by (cases st) simp_all

theorem output_name_by_reference_witness:
  "snd (call Snpeff example_state ''S1'' example_args) = Inr ''S1.snpEff.GRCh37.vcf'' \<and>
   snd (call Snpeff example_state_b ''S1'' example_args) = Inr ''S1.snpEff.GRCh38.vcf'' \<and>
   snpeff_reference (config example_state) \<noteq> snpeff_reference (config example_state_b)"
proof -
  have 1: "snd (call Snpeff example_state ''S1'' example_args) = Inr ''S1.snpEff.GRCh37.vcf''"
    by (simp add: snpeff_def snpeff_command_def example_defs eval_defs)
  have 2: "snd (call Snpeff example_state_b ''S1'' example_args) = Inr ''S1.snpEff.GRCh38.vcf''"
    by (simp add: snpeff_def snpeff_command_def example_state_b_def setitem_def
          example_defs eval_defs)
  show ?thesis
    using output_name_by_reference [OF 1 2] 1 2 by simp
qed




text \<open>
  C6, as stated, fails for GEMINI: the command of \<open>gemini\<close> contains no \<open>>\<close>; the
  database name is its last, positional argument.
\<close>

theorem gemini_no_redirection:
  "runs (new_effects example_state (fst (call Gemini example_state ''S1'' example_args))) =
     [(''gemini load --cores 4 --save-info-string -v S1.vcf -t snpEff S1.snpEff.GRCh37.db'',
       ''S1.gemini.log'')] \<and>
   CHR ''>'' \<notin> set (fst (hd (runs (new_effects example_state
                                  (fst (call Gemini example_state ''S1'' example_args))))))"
  by (simp add: gemini_def gemini_command_def example_defs eval_defs effect_defs)

text \<open>
  C6, amended. In every command that is built without an exception: \<open>snpeff\<close> ends
  with the single token \<open>>{output}\<close> and \<open>vcfanno\<close> with the two tokens \<open>>\<close> and the
  output path (redirection of standard output); \<open>gemini\<close> ends with
  \<open>-t snpEff {database}\<close>, the database as a positional argument and no redirection;
  the GATK commands of \<open>diagnosetargets\<close>, \<open>annotate_vcf\<close>, \<open>filter_variants\<close>,
  \<open>realign_target_creator\<close> and \<open>recalibrator\<close> (PrintReads) carry \<open>-o\<close> followed by
  the returned path, Picard's \<open>AddOrReplaceReadGroups\<close> carries \<open>OUTPUT={output}\<close> and
  Platypus \<open>--output={output}\<close>.
\<close>

theorem output_argument:
  assumes "commands st cfg ncpu sample a = Inr cmds"
  shows "(if names_reference st
          then drop (output_index st) (fst (cmds ! output_command st))
          else take (length (output_tokens st (artifact st sample (snpeff_reference cfg))))
                 (drop (output_index st) (fst (cmds ! output_command st)))) =
         output_tokens st (artifact st sample (snpeff_reference cfg))"
proof (cases st)
  case Snpeff
  with assms obtain r c where
    c: "cfg2 cfg ''snpeff'' ''reference'' = Inr r"
       "snpeff_command cfg (a_input_vcf a) (sample @ ''.snpEff.'' @ format r @ ''.vcf'') = Inr c"
       "cmds = [(c, sample @ ''.snpeff.log'')]"
    by (auto simp: bind_res_Inr_iff)
  from seq_res_Inr_projr [OF c(2) [unfolded snpeff_command_def]] c(1,3) Snpeff
  show ?thesis by (simp add: snpeff_reference_def)
next
  case Gemini
  with assms obtain r c where
    c: "cfg2 cfg ''snpeff'' ''reference'' = Inr r"
       "gemini_command cfg (a_input_vcf a) (sample @ ''.snpEff.'' @ format r @ ''.db'') = Inr c"
       "cmds = [(c, sample @ ''.gemini.log'')]"
    by (auto simp: bind_res_Inr_iff)
  from seq_res_Inr_projr [OF c(2) [unfolded gemini_command_def]] c(1,3) Gemini
  show ?thesis by (simp add: snpeff_reference_def)
next
  case Vcfanno
  with assms obtain r c where
    c: "cfg2 cfg ''snpeff'' ''reference'' = Inr r"
       "vcfanno_command cfg (a_input_vcf a) (sample @ ''.vcfanno.snpEff.'' @ format r @ ''.vcf'') = Inr c"
       "cmds = [(c, sample @ ''.vcfanno.log'')]"
    by (auto simp: bind_res_Inr_iff)
  from seq_res_Inr_projr [OF c(2) [unfolded vcfanno_command_def]] c(1,3) Vcfanno
  show ?thesis by (simp add: snpeff_reference_def)
next
  case Diagnosetargets
  with assms obtain c where
    c: "diagnosetargets_command cfg (a_input_bam a) (sample @ ''.diagnosetargets.vcf'')
          (sample @ ''.missing.intervals'') = Inr c"
       "cmds = [(c, sample @ ''.diagnose_targets.log'')]"
    by (auto simp: bind_res_Inr_iff)
  from seq_res_Inr_projr [OF c(1) [unfolded diagnosetargets_command_def]] c(2) Diagnosetargets
  show ?thesis by simp
next
  case AnnotateVcf
  with assms obtain c where
    c: "annotation_command cfg (a_input_vcf a) (a_input_bam a) (a_num_threads a)
          (sample @ ''.annotated.vcf'') = Inr c"
       "cmds = [(c, sample @ ''.variantannotation.log'')]"
    by (auto simp: bind_res_Inr_iff)
  from seq_res_Inr_projr [OF c(1) [unfolded annotation_command_def]] c(2) AnnotateVcf
  show ?thesis by simp
next
  case FilterVariants
  with assms obtain c where
    c: "filter_command cfg (a_input_vcf a) (sample @ ''.filtered.vcf'') = Inr c"
       "cmds = [(c, sample @ ''.variantfiltration.log'')]"
    by (auto simp: bind_res_Inr_iff)
  from seq_res_Inr_projr [OF c(1) [unfolded filter_command_def]] c(2) FilterVariants
  show ?thesis by simp
next
  case AddOrReplaceReadgroups
  with assms obtain c c2 where
    c: "add_or_replace_readgroups_command cfg sample (a_input_bam a) (sample @ ''.rg.sorted.bam'')
          = Inr c"
       "cmds = [(c, sample @ ''.addreadgroups.log''), (c2, sample @ ''.buildindex.log'')]"
    by (auto simp: bind_res_Inr_iff)
  from seq_res_Inr_projr [OF c(1) [unfolded add_or_replace_readgroups_command_def]] c(2)
    AddOrReplaceReadgroups
  show ?thesis by simp
next
  case RealignTargetCreator
  with assms obtain c where
    c: "realign_target_creator_command cfg (a_input_bam a) (sample @ ''.targets.intervals'') = Inr c"
       "cmds = [(c, sample @ ''.targetcreation.log'')]"
    by (auto simp: bind_res_Inr_iff)
  from seq_res_Inr_projr [OF c(1) [unfolded realign_target_creator_command_def]] c(2) RealignTargetCreator
  show ?thesis by simp
next
  case RealignIndels
  then show ?thesis by simp
next
  case Recalibrator
  with assms obtain c c2 where
    c: "print_reads_command cfg ncpu (a_input_bam a) (sample @ ''.recalibrated.sorted.bam'')
          (sample @ ''.recal'') = Inr c2"
       "cmds = [(c, sample @ ''.recalibrate.log''), (c2, sample @ ''.printrecalibrated.log''),
                (cp_command sample, sample @ ''.copy.log'')]"
    by (auto simp: bind_res_Inr_iff)
  from seq_res_Inr_projr [OF c(1) [unfolded print_reads_command_def]] c(2) Recalibrator
  show ?thesis by simp
next
  case PlatypusSingle
  with assms obtain c where
    c: "platypus_command cfg ncpu (a_input_bam a) (sample @ ''.platypus_internal.log'')
          (sample @ ''.platypus.vcf'') = Inr c"
       "cmds = [(c, sample @ ''.platypus.log'')]"
    by (auto simp: bind_res_Inr_iff)
  from seq_res_Inr_projr [OF c(1) [unfolded platypus_command_def]] c(2) PlatypusSingle
  show ?thesis by simp
qed


theorem output_argument_witness:
  "commands Vcfanno example_config 4 ''S1'' example_args =
     Inr [([''vcfanno'', ''-p'', ''4'', ''--lua'', ''custom.lua'', ''conf.toml'', ''S1.vcf'',
            ''>'', ''S1.vcfanno.snpEff.GRCh37.vcf''], ''S1.vcfanno.log'')] \<and>
   drop 7 [''vcfanno'', ''-p'', ''4'', ''--lua'', ''custom.lua'', ''conf.toml'', ''S1.vcf'',
           ''>'', ''S1.vcfanno.snpEff.GRCh37.vcf''] = [''>'', ''S1.vcfanno.snpEff.GRCh37.vcf'']"
proof -
  have h: "commands Vcfanno example_config 4 ''S1'' example_args =
     Inr [([''vcfanno'', ''-p'', ''4'', ''--lua'', ''custom.lua'', ''conf.toml'', ''S1.vcf'',
            ''>'', ''S1.vcfanno.snpEff.GRCh37.vcf''], ''S1.vcfanno.log'')]"
    by (simp add: vcfanno_command_def example_defs eval_defs)
  from output_argument [OF h] h show ?thesis by simp
qed

text \<open>
  C7. A stage is to raise when a configuration key it requires is absent, rather than
  build a malformed command. \<open>realign_indels\<close> needs the GATK jar, which the
  configuration holds under \<open>config['gatk']['bin']\<close>. With that key absent the call
  raises nothing: it formats the whole \<open>config['gatk']\<close> dictionary as the argument of
  \<open>-jar\<close>, runs that command and returns its path.
\<close>

theorem realign_indels_without_jar_runs:
  "lookup_path (PDict (config no_jar_state)) [''gatk'', ''bin''] = Inl (KeyError ''bin'') \<and>
   snd (call RealignIndels no_jar_state ''S1'' example_args) = Inr ''S1.realigned.sorted.bam'' \<and>
   runs (new_effects no_jar_state (fst (call RealignIndels no_jar_state ''S1'' example_args))) =
     [(''java -Xmx8g -jar {'max_mem': 8} -T RealignerTargetCreator -R hg19.fa -I S1.bam -o S1.targets.intervals -known mills.vcf -known 1000g.vcf -nt 4'',
       ''S1.realignindels.log'')]"
  by (simp add: realign_indels_def realign_indels_command_def no_jar_state_def setitem_def
        example_defs eval_defs effect_defs
        repr_str_def repr_quote_def repr_char_def squote_def dquote_def backslash_def)

text \<open>
  What does hold of the lookups a body makes. If a lookup of an entry in
  \<open>config_reads\<close> raises (a \<open>KeyError\<close> for an absent key; a \<open>TypeError\<close> when a string
  or number stands where a nested dictionary is indexed), the call raises, the
  exception is that of a failed lookup of one of these entries, and nothing has been
  passed to \<open>run_and_log_command\<close>: \<open>add_or_replace_readgroups\<close> has only written its
  opening message to the master log, every other stage has had no effect at all.
\<close>

theorem failed_lookup_raises:
  assumes "q \<in> set (config_reads st)" and "isl (lookup_path (PDict (config w)) q)"
  shows "\<exists>e. snd (call st w sample a) = Inl e \<and>
             (\<exists>p\<in>set (config_reads st). lookup_path (PDict (config w)) p = Inl e) \<and>
             new_effects w (fst (call st w sample a)) =
               (if st = AddOrReplaceReadgroups
                then [LogToMaster (''Running AddOrReplaceReadGroups in sample: '' @ sample)]
                else [])"
proof -
  from failed_read_commands_Inl [OF assms, of "cpu_count w" sample a]
  obtain e where e: "commands st (config w) (cpu_count w) sample a = Inl e"
    by (auto simp: isl_def)
  from call_raises [OF e] commands_Inl_read [OF e] show ?thesis by blast
qed

theorem failed_lookup_raises_witness:
  "snd (call Snpeff incomplete_state ''S1'' example_args) = Inl (KeyError ''bin'') \<and>
   new_effects incomplete_state (fst (call Snpeff incomplete_state ''S1'' example_args)) = []"
proof -
  have 1: "[''snpeff'', ''bin''] \<in> set (config_reads Snpeff)"
    by simp
  have 2: "isl (lookup_path (PDict (config incomplete_state)) [''snpeff'', ''bin''])"
    by (simp add: incomplete_state_def lookup_path.simps)
  have 3: "snd (call Snpeff incomplete_state ''S1'' example_args) = Inl (KeyError ''bin'')"
    by (simp add: snpeff_def snpeff_command_def incomplete_state_def eval_defs tok_def)
  from failed_lookup_raises [OF 1 2, of "''S1''" example_args] 3
  show ?thesis by simp
qed




text \<open>
  C9. No stage changes the configuration dictionary it receives (\<open>config\<close>, called
  \<open>tool_config\<close> by \<open>run_mark_duplicates\<close>): it is the same after the call as before,
  whether the call returns or raises. The eleven job stages leave the sample records
  alone as well.
\<close>

theorem config_unchanged:
  "config (fst (call st w sample a)) = config w \<and>
   sample_config (fst (call st w sample a)) = sample_config w \<and>
   config (fst (run_mark_duplicates w)) = config w"
  by (cases st)
     (auto simp: stage_defs effect_defs Let_def run_mark_duplicates_def
           split: sum.splits prod.splits)

text \<open>
  C10, as stated, fails: when \<open>realign_indels\<close> is given the BAM of an earlier
  realignment as its input, the path it returns stands in the argument vector, after
  \<open>-I\<close>.
\<close>

theorem realign_indels_output_in_command:
  "snd (realign_indels example_state ''S1'' ''S1.realigned.sorted.bam'' ''S1.targets.intervals'') =
     Inr ''S1.realigned.sorted.bam'' \<and>
   realign_indels_command (config example_state) (cpu_count example_state)
     ''S1.realigned.sorted.bam'' ''S1.targets.intervals'' =
     Inr [''java'', ''-Xmx8g'', ''-jar'', ''{'bin': 'gatk.jar', 'max_mem': 8}'',
          ''-T'', ''RealignerTargetCreator'', ''-R'', ''hg19.fa'',
          ''-I'', ''S1.realigned.sorted.bam'', ''-o'', ''S1.targets.intervals'',
          ''-known'', ''mills.vcf'', ''-known'', ''1000g.vcf'', ''-nt'', ''4'']"
  by (simp add: realign_indels_def realign_indels_command_def example_defs eval_defs
        repr_str_def repr_quote_def repr_char_def squote_def dquote_def backslash_def)

text \<open>
  C10, amended. With a configuration holding the five entries \<open>realign_indels\<close> reads,
  the call logs its command, then touches \<open>{sample}.realigned.sorted.bam\<close>, then
  invokes the command, and returns that path. The argument after \<open>-o\<close> is the targets
  path of the caller. The returned path is no part of the command as such: it occurs
  in the argument vector exactly when the caller's input BAM or targets path, or a
  formatted configuration value, is that very string.
\<close>

theorem realign_indels_touch_then_run:
  fixes w sample input_bam targets max_mem gatk reference indel1 indel2
  defines "output_bam \<equiv> sample @ ''.realigned.sorted.bam''"
    and "command \<equiv> [''java'', ''-Xmx'' @ format max_mem @ ''g'', ''-jar'', format gatk,
                      ''-T'', ''RealignerTargetCreator'', ''-R'', format reference,
                      ''-I'', input_bam, ''-o'', targets,
                      ''-known'', format indel1, ''-known'', format indel2,
                      ''-nt'', show_int (cpu_count w)]"
  assumes "cfg2 (config w) ''gatk'' ''max_mem'' = Inr max_mem"
    and "cfg1 (config w) ''gatk'' = Inr gatk"
    and "cfg1 (config w) ''reference'' = Inr reference"
    and "cfg1 (config w) ''indel1'' = Inr indel1"
    and "cfg1 (config w) ''indel2'' = Inr indel2"
  shows "new_effects w (fst (realign_indels w sample input_bam targets)) =
           [LogToMaster (''GATK IndelRealigner Command: '' @ repr_tuple command @ [newline]),
            Touch output_bam,
            RunAndLog (join '' '' command) (sample @ ''.realignindels.log'')] \<and>
         snd (realign_indels w sample input_bam targets) = Inr output_bam \<and>
         (output_bam \<in> set command \<longleftrightarrow>
            output_bam \<in> {input_bam, targets, format gatk, format reference,
                           format indel1, format indel2})"
proof -
  have c: "realign_indels_command (config w) (cpu_count w) input_bam targets = Inr command"
    using assms(3-7) by (simp add: realign_indels_command_def lit_def command_def)
  have 1: "new_effects w (fst (realign_indels w sample input_bam targets)) =
           [LogToMaster (''GATK IndelRealigner Command: '' @ repr_tuple command @ [newline]),
            Touch output_bam,
            RunAndLog (join '' '' command) (sample @ ''.realignindels.log'')]"
    by (simp add: realign_indels_def c Let_def effect_defs output_bam_def)
  have 2: "snd (realign_indels w sample input_bam targets) = Inr output_bam"
    by (simp add: realign_indels_def c Let_def output_bam_def)
  have n: "output_bam \<noteq> x" if "x = [] \<or> last x \<noteq> CHR ''m''" for x
    unfolding output_bam_def using that by (rule realigned_name_neq)
  have lits: "output_bam \<noteq> ''java''" "output_bam \<noteq> ''-jar''" "output_bam \<noteq> ''-T''"
    "output_bam \<noteq> ''RealignerTargetCreator''" "output_bam \<noteq> ''-R''" "output_bam \<noteq> ''-I''"
    "output_bam \<noteq> ''-o''" "output_bam \<noteq> ''-known''" "output_bam \<noteq> ''-nt''"
    "output_bam \<noteq> ''-Xmx'' @ format max_mem @ ''g''"
    by (rule n, simp)+
  have cpu: "output_bam \<noteq> show_int (cpu_count w)"
    by (rule n) (use show_int_last [of "cpu_count w"] in auto)
  have 3: "output_bam \<in> set command \<longleftrightarrow>
            output_bam \<in> {input_bam, targets, format gatk, format reference,
                           format indel1, format indel2}"
    using lits cpu by (auto simp: command_def)
  from 1 2 3 show ?thesis by blast
qed


theorem realign_indels_touch_then_run_witness:
  "new_effects example_state
     (fst (realign_indels example_state ''S1'' ''S1.bam'' ''S1.targets.intervals'')) ! 1 =
     Touch ''S1.realigned.sorted.bam'' \<and>
   snd (realign_indels example_state ''S1'' ''S1.bam'' ''S1.targets.intervals'') =
     Inr ''S1.realigned.sorted.bam''"
proof -
  have m: "cfg2 (config example_state) ''gatk'' ''max_mem'' = Inr (PInt 8)"
    by (simp add: example_defs eval_defs)
  have g: "cfg1 (config example_state) ''gatk'' =
             Inr (PDict [(''bin'', PStr ''gatk.jar''), (''max_mem'', PInt 8)])"
    by (simp add: example_defs eval_defs)
  have r: "cfg1 (config example_state) ''reference'' = Inr (PStr ''hg19.fa'')"
    by (simp add: example_defs eval_defs)
  have i1: "cfg1 (config example_state) ''indel1'' = Inr (PStr ''mills.vcf'')"
    by (simp add: example_defs eval_defs)
  have i2: "cfg1 (config example_state) ''indel2'' = Inr (PStr ''1000g.vcf'')"
    by (simp add: example_defs eval_defs)
  show ?thesis
    using realign_indels_touch_then_run [OF m g r i1 i2, of "''S1''" "''S1.bam''"
        "''S1.targets.intervals''"]
    by simp
qed

end
